theory Spec2Isabelle
  imports Main "HOL-Library.Word"
begin

section \<open>Strings and values of the host language\<close>

text \<open>
  A JavaScript string is a sequence of 16-bit code units. A string is falsy exactly
  when it is empty, so \<open>!s\<close> is \<open>s = []\<close> and \<open>t || d\<close> is \<open>if t = [] then d else t\<close>.
\<close>

type_synonym jsstring = "16 word list"

definition js :: "string \<Rightarrow> jsstring" where
  "js s = map of_char s"

text \<open>
  \<open>String.prototype.trim\<close> strips the code units of ECMAScript's WhiteSpace and
  LineTerminator productions from both ends.
\<close>

definition isWhiteSpace :: "16 word \<Rightarrow> bool" where
  "isWhiteSpace u =
     (u = 0x09 \<or> u = 0x0A \<or> u = 0x0B \<or> u = 0x0C \<or> u = 0x0D \<or> u = 0x20 \<or> u = 0xA0
      \<or> u = 0x1680 \<or> (0x2000 \<le> u \<and> u \<le> 0x200A) \<or> u = 0x2028 \<or> u = 0x2029
      \<or> u = 0x202F \<or> u = 0x205F \<or> u = 0x3000 \<or> u = 0xFEFF)"

definition trim :: "jsstring \<Rightarrow> jsstring" where
  "trim s = rev (dropWhile isWhiteSpace (rev (dropWhile isWhiteSpace s)))"

text \<open>
  \<open>xs[i]\<close> on an array: \<open>None\<close> stands for \<open>undefined\<close>, the value of a read past
  the end.
\<close>

definition index :: "'a list \<Rightarrow> nat \<Rightarrow> 'a option" where
  "index xs i = (if i < length xs then Some (xs ! i) else None)"

text \<open>
  A thrown value is an \<open>Error\<close> instance with its message, a string, or anything else;
  the last carries what \<open>JSON.stringify\<close> makes of it (\<open>None\<close>: \<open>JSON.stringify\<close>
  throws).
\<close>

datatype thrown = Error jsstring | StringValue jsstring | OtherValue "jsstring option"

datatype 'a settled = Fulfilled 'a | Rejected thrown

section \<open>Data model\<close>

record item =
  ident :: int
  name :: jsstring
  category :: jsstring
  perishable :: bool
  dlc :: jsstring
  location :: jsstring
  created_at :: jsstring

record form =
  name :: jsstring
  category :: jsstring
  perishable :: bool
  dlc :: jsstring
  location :: jsstring

datatype Outcome = consomme | perdu

text \<open>
  The requests the client sends to \<open>API\<close>. A \<open>Response\<close> is what its members give:
  the status (\<open>ok\<close> is a status from 200 to 299), \<open>text()\<close> and \<open>json()\<close>, each of which
  may reject. \<open>fetch\<close> itself rejects on a transport failure and fulfils on any
  HTTP status.
\<close>

datatype request =
    GET_categories
  | GET_locations
  | GET_items
  | POST_items form
  | POST_dispose int Outcome

record 'a response =
  status :: nat
  res_text :: "jsstring settled"
  res_json :: "'a settled"

definition ok :: "'a response \<Rightarrow> bool" where
  "ok r = (200 \<le> status r \<and> status r \<le> 299)"

text \<open>
  The two sources, \<open>dlc-front/src/App.tsx\<close> and the second copy of the component.
  They differ in the \<open>setTimeout\<close> calls, present in the first only.
\<close>

datatype client = App_tsx | Part_000

datatype timer = ClearMessage | ClearError

text \<open>
  The component's state (the \<open>useState\<close> cells), and the callbacks registered with
  \<open>setTimeout\<close> that have not run yet, each with the milliseconds left.
\<close>

record app =
  categories :: "jsstring list"
  locations :: "jsstring list"
  items :: "item list"
  loading :: bool
  form :: form
  message :: "jsstring option"
  error :: "jsstring option"
  timers :: "(nat \<times> timer) list"

definition init :: app where
  "init = \<lparr>categories = [], locations = [], items = [], loading = False,
     form = \<lparr>name = [], category = [], perishable = True, dlc = [], location = []\<rparr>,
     message = None, error = None, timers = []\<rparr>"

section \<open>Operations\<close>

fun errMsg :: "thrown \<Rightarrow> jsstring" where
  "errMsg (Error m) = m"
| "errMsg (StringValue s) = s"
| "errMsg (OtherValue (Some j)) = j"
| "errMsg (OtherValue None) = js ''Erreur inconnue''"

text \<open>\<open>setTimeout(() => setMessage(null), 3000)\<close> and its twin for the error.\<close>

definition setTimeout :: "client \<Rightarrow> timer \<Rightarrow> app \<Rightarrow> app" where
  "setTimeout c t s =
     (case c of App_tsx \<Rightarrow> s\<lparr>timers := timers s @ [(3000, t)]\<rparr> | Part_000 \<Rightarrow> s)"

definition run_timer :: "timer \<Rightarrow> app \<Rightarrow> app" where
  "run_timer t s =
     (case t of ClearMessage \<Rightarrow> s\<lparr>message := None\<rparr> | ClearError \<Rightarrow> s\<lparr>error := None\<rparr>)"

text \<open>
  \<open>dt\<close> milliseconds pass with no other event: the callbacks that are due run, in the
  order of their registration, and the others are \<open>dt\<close> closer.
\<close>

definition elapse :: "nat \<Rightarrow> app \<Rightarrow> app" where
  "elapse dt s =
     fold run_timer (map snd (filter (\<lambda>p. fst p \<le> dt) (timers s)))
       (s\<lparr>timers := map (\<lambda>p. (fst p - dt, snd p)) (filter (\<lambda>p. dt < fst p) (timers s))\<rparr>)"

subsection \<open>The urgency badge\<close>

text \<open>
  Modelled from the spec: \<open>diff\<close> of the date library, which is not part of the
  repository. \<open>diff_day d now\<close> is \<open>d.diff(now, "day")\<close> on two instants in milliseconds:
  the difference \<open>d - now\<close> in days, truncated to a whole number.
\<close>

definition diff_day :: "int \<Rightarrow> int \<Rightarrow> int" where
  "diff_day d now =
     (if d - now < 0 then - ((now - d) div 86400000) else (d - now) div 86400000)"

text \<open>
  \<open>badge\<close>, with \<open>the_dlc\<close> for its argument \<open>dlc\<close>. The library's parser \<open>dayjs\<close>
  (a date string to its instant) and the reading \<open>now\<close> of the clock by \<open>dayjs()\<close> are
  parameters.
\<close>

definition badge :: "(jsstring \<Rightarrow> int) \<Rightarrow> int \<Rightarrow> jsstring \<Rightarrow> jsstring" where
  "badge dayjs now the_dlc =
     (let d = dayjs the_dlc;
          diff = diff_day d now
      in if diff < 0 then js ''bg-red-600 text-white''
         else if diff \<le> 3 then js ''bg-red-500 text-white''
         else if diff \<le> 7 then js ''bg-yellow-400 text-black''
         else js ''bg-green-500 text-white'')"

subsection \<open>Loading the vocabularies and the items\<close>

text \<open>\<open>fetch(url).then(r => r.json())\<close>: the status is not looked at.\<close>

definition then_json :: "'a response settled \<Rightarrow> 'a settled" where
  "then_json p = (case p of Rejected e \<Rightarrow> Rejected e | Fulfilled r \<Rightarrow> res_json r)"

text \<open>
  \<open>Promise.all\<close> of two promises. When both reject, the reason is that of the one that
  rejected first in time; the model takes the first's, and \<open>void fetchRefs()\<close> drops it.
\<close>

definition promise_all :: "'a settled \<Rightarrow> 'b settled \<Rightarrow> ('a \<times> 'b) settled" where
  "promise_all p q =
     (case p of
        Rejected e \<Rightarrow> Rejected e
      | Fulfilled x \<Rightarrow> (case q of Rejected e \<Rightarrow> Rejected e | Fulfilled y \<Rightarrow> Fulfilled (x, y)))"

text \<open>
  An async function runs in phases, one per \<open>await\<close>. A phase takes the state as it is
  when the phase starts and returns the requests it sends with the new state; the next
  phase takes the outcome of the awaited request. \<open>fetchRefs\<close> sends both requests
  before it awaits either.
\<close>

definition fetchRefs_begin :: "app \<Rightarrow> request list \<times> app" where
  "fetchRefs_begin s = ([GET_categories, GET_locations], s)"

text \<open>
  The second phase of \<open>fetchRefs\<close>. \<open>f0\<close> is the \<open>form\<close> of the closure, the value
  of the render that created \<open>fetchRefs\<close>: the two tests read it, while the updates
  \<open>setForm((f) => ...)\<close> apply to the form of the state \<open>s\<close>. The result is \<open>None\<close>
  when \<open>cats[0]\<close> or \<open>locs[0]\<close> is a read past the end.
\<close>

definition fetchRefs_settled ::
    "form \<Rightarrow> jsstring list response settled \<Rightarrow> jsstring list response settled \<Rightarrow> app
     \<Rightarrow> (unit settled \<times> app) option" where
  "fetchRefs_settled f0 pc pl s =
     (case promise_all (then_json pc) (then_json pl) of
        Rejected e \<Rightarrow> Some (Rejected e, s)
      | Fulfilled (cats, locs) \<Rightarrow>
          (let s1 = s\<lparr>categories := cats\<rparr>;
               s2 = s1\<lparr>locations := locs\<rparr>
           in case (if category f0 = [] \<and> length cats \<noteq> 0
                    then map_option (\<lambda>c. s2\<lparr>form := (form s2)\<lparr>category := c\<rparr>\<rparr>) (index cats 0)
                    else Some s2) of
                None \<Rightarrow> None
              | Some s3 \<Rightarrow>
                  (case (if location f0 = [] \<and> length locs \<noteq> 0
                         then map_option (\<lambda>l. s3\<lparr>form := (form s3)\<lparr>location := l\<rparr>\<rparr>)
                                (index locs 0)
                         else Some s3) of
                     None \<Rightarrow> None
                   | Some s4 \<Rightarrow> Some (Fulfilled (), s4))))"

definition fetchItems_begin :: "app \<Rightarrow> request list \<times> app" where
  "fetchItems_begin s = ([GET_items], s)"

definition fetchItems_settled :: "item list response settled \<Rightarrow> app \<Rightarrow> unit settled \<times> app" where
  "fetchItems_settled p s =
     (case then_json p of
        Rejected e \<Rightarrow> (Rejected e, s)
      | Fulfilled data \<Rightarrow> (Fulfilled (), s\<lparr>items := data\<rparr>))"

subsection \<open>Adding an item\<close>

definition article_ajoute :: jsstring where
  "article_ajoute = js ''Article ajout'' @ [0xE9, 0x20, 0x2705]"

text \<open>The \<open>catch\<close> block of \<open>onSubmit\<close>, followed by its \<open>finally\<close>.\<close>

definition onSubmit_catch :: "client \<Rightarrow> thrown \<Rightarrow> app \<Rightarrow> app" where
  "onSubmit_catch c err s =
     (let s1 = s\<lparr>error := Some (errMsg err)\<rparr>;
          s2 = setTimeout c ClearError s1
      in s2\<lparr>loading := False\<rparr>)"

definition onSubmit_begin :: "client \<Rightarrow> app \<Rightarrow> request list \<times> app" where
  "onSubmit_begin c s =
     (let s1 = s\<lparr>loading := True\<rparr>;
          s2 = s1\<lparr>message := None\<rparr>;
          s3 = s2\<lparr>error := None\<rparr>
      in if trim (name (form s)) = [] then ([], onSubmit_catch c (Error (js ''Nom requis'')) s3)
         else if dlc (form s) = [] then ([], onSubmit_catch c (Error (js ''DLC requise'')) s3)
         else ([POST_items (form s)], s3))"

definition onSubmit_posted :: "client \<Rightarrow> unit response settled \<Rightarrow> app \<Rightarrow> request list \<times> app" where
  "onSubmit_posted c p s =
     (case p of
        Rejected e \<Rightarrow> ([], onSubmit_catch c e s)
      | Fulfilled res \<Rightarrow>
          if \<not> ok res then
            (case res_text res of
               Rejected e \<Rightarrow> ([], onSubmit_catch c e s)
             | Fulfilled t \<Rightarrow>
                 ([], onSubmit_catch c (Error (if t = [] then js ''Erreur API'' else t)) s))
          else
            (let s1 = s\<lparr>message := Some article_ajoute\<rparr>;
                 s2 = setTimeout c ClearMessage s1;
                 s3 = s2\<lparr>form := (form s2)\<lparr>name := [], dlc := []\<rparr>\<rparr>
             in fetchItems_begin s3))"

definition onSubmit_refreshed :: "client \<Rightarrow> item list response settled \<Rightarrow> app \<Rightarrow> app" where
  "onSubmit_refreshed c p s =
     (case fetchItems_settled p s of
        (Rejected e, s1) \<Rightarrow> onSubmit_catch c e s1
      | (Fulfilled u, s1) \<Rightarrow> s1\<lparr>loading := False\<rparr>)"

text \<open>
  A whole run of \<open>onSubmit\<close> with nothing else in between: \<open>post\<close> and \<open>refresh\<close> are
  what the network answers to the two requests, if they are sent.
\<close>

definition onSubmit ::
    "client \<Rightarrow> unit response settled \<Rightarrow> item list response settled \<Rightarrow> app
     \<Rightarrow> request list \<times> app" where
  "onSubmit c post refresh s =
     (case onSubmit_begin c s of
        ([], s1) \<Rightarrow> ([], s1)
      | (r # rs, s1) \<Rightarrow>
          (case onSubmit_posted c post s1 of
             ([], s2) \<Rightarrow> (r # rs, s2)
           | (r' # rs', s2) \<Rightarrow> (r # rs @ r' # rs', onSubmit_refreshed c refresh s2)))"

subsection \<open>Disposing of an item\<close>

definition marque_consomme :: jsstring where
  "marque_consomme = js ''Marqu'' @ [0xE9] @ js '' consomm'' @ [0xE9, 0x20, 0x2705]"

definition marque_perdu :: jsstring where
  "marque_perdu = js ''Marqu'' @ [0xE9] @ js '' perdu '' @ [0x274C]"

definition disposeItem_catch :: "client \<Rightarrow> thrown \<Rightarrow> app \<Rightarrow> app" where
  "disposeItem_catch c e s = setTimeout c ClearError (s\<lparr>error := Some (errMsg e)\<rparr>)"

definition disposeItem_begin :: "int \<Rightarrow> Outcome \<Rightarrow> app \<Rightarrow> request list \<times> app" where
  "disposeItem_begin k outcome s =
     (let s1 = s\<lparr>message := None\<rparr>;
          s2 = s1\<lparr>error := None\<rparr>
      in ([POST_dispose k outcome], s2))"

definition disposeItem_settled ::
    "client \<Rightarrow> int \<Rightarrow> Outcome \<Rightarrow> unit response settled \<Rightarrow> app \<Rightarrow> request list \<times> app" where
  "disposeItem_settled c k outcome p s =
     (case p of
        Rejected e \<Rightarrow> ([], disposeItem_catch c e s)
      | Fulfilled res \<Rightarrow>
          if \<not> ok res then
            (case res_text res of
               Rejected e \<Rightarrow> ([], disposeItem_catch c e s)
             | Fulfilled t \<Rightarrow>
                 ([], disposeItem_catch c (Error (if t = [] then js ''Erreur API'' else t)) s))
          else
            (let s1 = s\<lparr>items := filter (\<lambda>it. ident it \<noteq> k) (items s)\<rparr>;
                 s2 = s1\<lparr>message :=
                        Some (if outcome = consomme then marque_consomme else marque_perdu)\<rparr>
             in ([], setTimeout c ClearMessage s2)))"

subsection \<open>The events of a session\<close>

text \<open>
  What can happen to the mounted component: the \<open>onChange\<close> handlers of the five
  fields, the submission and the two clicks of a row, the outcome of a pending
  request, and time passing. A \<open>select\<close> offers the entries of its vocabulary and a
  row exists for a listed item, so the change of a \<open>select\<close> to another value and the
  click on a missing row are no events (\<open>None\<close>). A submission and the outcome of a
  request may come in any state, which is more than the page allows (its button is
  disabled while loading, its inputs are \<open>required\<close>): the sessions of the component
  are among those of the model. The effect of the mount calls \<open>fetchRefs\<close> of the first
  render, whose \<open>form\<close> is that of \<open>init\<close>; it runs once, and twice when React
  remounts the component in development, so a session may hold a second \<open>RefsSettled\<close>.
\<close>

datatype event =
    ChangeName jsstring
  | ChangeCategory jsstring
  | ChangeLocation jsstring
  | ChangePerishable bool
  | ChangeDlc jsstring
  | Submit
  | Posted "unit response settled"
  | Refreshed "item list response settled"
  | Click int Outcome
  | Disposed int Outcome "unit response settled"
  | RefsSettled "jsstring list response settled" "jsstring list response settled"
  | ItemsSettled "item list response settled"
  | Elapse nat

fun step :: "client \<Rightarrow> event \<Rightarrow> app \<Rightarrow> app option" where
  "step c (ChangeName v) s = Some (s\<lparr>form := (form s)\<lparr>name := v\<rparr>\<rparr>)"
| "step c (ChangeCategory v) s =
     (if v \<in> set (categories s) then Some (s\<lparr>form := (form s)\<lparr>category := v\<rparr>\<rparr>) else None)"
| "step c (ChangeLocation v) s =
     (if v \<in> set (locations s) then Some (s\<lparr>form := (form s)\<lparr>location := v\<rparr>\<rparr>) else None)"
| "step c (ChangePerishable b) s = Some (s\<lparr>form := (form s)\<lparr>perishable := b\<rparr>\<rparr>)"
| "step c (ChangeDlc v) s = Some (s\<lparr>form := (form s)\<lparr>dlc := v\<rparr>\<rparr>)"
| "step c Submit s = Some (snd (onSubmit_begin c s))"
| "step c (Posted p) s = Some (snd (onSubmit_posted c p s))"
| "step c (Refreshed p) s = Some (onSubmit_refreshed c p s)"
| "step c (Click k outcome) s =
     (if k \<in> ident ` set (items s) then Some (snd (disposeItem_begin k outcome s)) else None)"
| "step c (Disposed k outcome p) s = Some (snd (disposeItem_settled c k outcome p s))"
| "step c (RefsSettled pc pl) s = map_option snd (fetchRefs_settled (form init) pc pl s)"
| "step c (ItemsSettled p) s = Some (snd (fetchItems_settled p s))"
| "step c (Elapse dt) s = Some (elapse dt s)"

fun run :: "client \<Rightarrow> event list \<Rightarrow> app \<Rightarrow> app option" where
  "run c [] s = Some s"
| "run c (e # es) s = (case step c e s of None \<Rightarrow> None | Some s' \<Rightarrow> run c es s')"

definition refs_pending :: "event list \<Rightarrow> bool" where
  "refs_pending es = list_all (\<lambda>e. case e of RefsSettled pc pl \<Rightarrow> False | _ \<Rightarrow> True) es"

subsection \<open>Invariants of a session\<close>

text \<open>
  Until the vocabularies are applied, both lists are empty and so are the two fields
  chosen from them.
\<close>

definition pre_load :: "app \<Rightarrow> bool" where
  "pre_load s =
     (categories s = [] \<and> locations s = [] \<and> category (form s) = [] \<and> location (form s) = [])"

text \<open>
  A message or an error that is shown has a pending callback that clears it within
  3000 milliseconds.
\<close>

definition covered :: "app \<Rightarrow> bool" where
  "covered s =
     ((message s \<noteq> None \<longrightarrow> list_ex (\<lambda>p. fst p \<le> 3000 \<and> snd p = ClearMessage) (timers s))
    \<and> (error s \<noteq> None \<longrightarrow> list_ex (\<lambda>p. fst p \<le> 3000 \<and> snd p = ClearError) (timers s)))"






section \<open>Auxiliary facts\<close>

lemmas phase_defs =
  onSubmit_begin_def onSubmit_posted_def onSubmit_refreshed_def onSubmit_catch_def
  disposeItem_begin_def disposeItem_settled_def disposeItem_catch_def
  fetchItems_begin_def fetchItems_settled_def setTimeout_def

lemma trim_empty_iff: "trim s = [] \<longleftrightarrow> (\<forall>u \<in> set s. isWhiteSpace u)"
proof -
  have "(\<forall>u \<in> set (dropWhile isWhiteSpace s). isWhiteSpace u)
          \<longleftrightarrow> dropWhile isWhiteSpace s = []"
    by (metis dropWhile_eq_Nil_conv dropWhile_idem)
  then show ?thesis
    by (simp add: trim_def)
qed

lemma promise_all_Fulfilled:
  "promise_all p q = Fulfilled (x, y) \<longleftrightarrow> p = Fulfilled x \<and> q = Fulfilled y"
  by (simp add: promise_all_def split: settled.splits)

lemma fetchRefs_settled_Rejected:
  "promise_all (then_json pc) (then_json pl) = Rejected e \<Longrightarrow>
   fetchRefs_settled f0 pc pl s = Some (Rejected e, s)"
  by (simp add: fetchRefs_settled_def)

text \<open>
  What a fulfilled \<open>fetchRefs\<close> does. The two tests read the form \<open>f0\<close> of the closure;
  the form of the state at that moment plays no part in them.
\<close>

lemma fetchRefs_settled_Fulfilled:
  "then_json pc = Fulfilled cats \<Longrightarrow> then_json pl = Fulfilled locs \<Longrightarrow>
   fetchRefs_settled f0 pc pl s =
     Some (Fulfilled (),
       s\<lparr>categories := cats, locations := locs,
         form := (form s)\<lparr>
           category := (if category f0 = [] \<and> cats \<noteq> [] then hd cats else category (form s)),
           location := (if location f0 = [] \<and> locs \<noteq> [] then hd locs else location (form s))\<rparr>\<rparr>)"
  by (cases cats; cases locs) (simp_all add: fetchRefs_settled_def promise_all_def index_def)

subsection \<open>Time\<close>

lemma fold_run_timer:
  "fold run_timer ts s =
     s\<lparr>message := (if ClearMessage \<in> set ts then None else message s),
       error := (if ClearError \<in> set ts then None else error s)\<rparr>"
proof (induction ts arbitrary: s)
  case Nil
  then show ?case by simp
next
  case (Cons t ts)
  then show ?case by (cases t) (auto simp: run_timer_def)
qed

lemma elapse_eq:
  "elapse dt s =
     s\<lparr>message := (if list_ex (\<lambda>p. fst p \<le> dt \<and> snd p = ClearMessage) (timers s)
                    then None else message s),
       error := (if list_ex (\<lambda>p. fst p \<le> dt \<and> snd p = ClearError) (timers s)
                  then None else error s),
       timers := map (\<lambda>p. (fst p - dt, snd p)) (filter (\<lambda>p. dt < fst p) (timers s))\<rparr>"
  by (auto simp: elapse_def fold_run_timer list_ex_iff image_iff)

text \<open>Waiting \<open>a\<close> and then \<open>b\<close> milliseconds is waiting \<open>a + b\<close>.\<close>

lemma elapse_elapse: "elapse b (elapse a s) = elapse (a + b) s"
proof -
  have h1: "(list_ex (\<lambda>p. fst p \<le> b \<and> snd p = t)
               (map (\<lambda>p. (fst p - a, snd p)) (filter (\<lambda>p. a < fst p) ts))
             \<or> list_ex (\<lambda>p. fst p \<le> a \<and> snd p = t) ts)
            \<longleftrightarrow> list_ex (\<lambda>p. fst p \<le> a + b \<and> snd p = t) ts"
    for t and ts :: "(nat \<times> timer) list"
    by (induction ts) auto
  have h2: "map (\<lambda>p. (fst p - b, snd p)) (filter (\<lambda>p. b < fst p)
               (map (\<lambda>p. (fst p - a, snd p)) (filter (\<lambda>p. a < fst p) ts)))
            = map (\<lambda>p. (fst p - (a + b), snd p)) (filter (\<lambda>p. a + b < fst p) ts)"
    for ts :: "(nat \<times> timer) list"
    by (induction ts) auto
  show ?thesis
    using h1 [of ClearMessage "timers s"] h1 [of ClearError "timers s"]
    by (auto simp: elapse_eq h2)
qed


subsection \<open>Before the vocabularies are applied\<close>

lemma pre_load_init: "pre_load init"
  by (simp add: pre_load_def init_def)

lemma step_pre_load:
  assumes "pre_load s" and "step c e s = Some s'"
    and "case e of RefsSettled pc pl \<Rightarrow> False | _ \<Rightarrow> True"
  shows "pre_load s'"
proof (cases e)
  case (Posted p)
  with assms show ?thesis
    by (cases c) (auto simp: pre_load_def phase_defs Let_def split: settled.splits if_splits)
next
  case (Disposed k outcome p)
  with assms show ?thesis
    by (cases c) (auto simp: pre_load_def phase_defs Let_def split: settled.splits if_splits)
next
  case (Refreshed p)
  with assms show ?thesis
    by (cases c) (auto simp: pre_load_def phase_defs Let_def split: settled.splits if_splits)
next
  case Submit
  with assms show ?thesis
    by (cases c) (auto simp: pre_load_def phase_defs Let_def split: settled.splits if_splits)
qed (use assms in \<open>auto simp: pre_load_def phase_defs elapse_eq Let_def
                     split: settled.splits if_splits\<close>)

lemma run_pre_load:
  "refs_pending es \<Longrightarrow> pre_load s \<Longrightarrow> run c es s = Some s' \<Longrightarrow> pre_load s'"
proof (induction es arbitrary: s)
  case Nil
  then show ?case by simp
next
  case (Cons e es)
  from Cons.prems(3) obtain s1 where s1: "step c e s = Some s1" and rest: "run c es s1 = Some s'"
    by (auto split: option.splits)
  from Cons.prems(1) have e: "case e of RefsSettled pc pl \<Rightarrow> False | _ \<Rightarrow> True"
    and es: "refs_pending es"
    by (simp_all add: refs_pending_def)
  from step_pre_load [OF Cons.prems(2) s1 e] have "pre_load s1" .
  from Cons.IH [OF es this rest] show ?case .
qed

text \<open>
  While the first answer with the vocabularies is awaited, neither \<open>select\<close> has an
  entry to choose.
\<close>

lemma select_offers_nothing_before_load:
  assumes "refs_pending es" and "run c es init = Some s"
  shows "step c (ChangeCategory v) s = None \<and> step c (ChangeLocation v) s = None"
  using run_pre_load [OF assms(1) pre_load_init assms(2)] by (simp add: pre_load_def)

subsection \<open>Pending callbacks in \<open>App.tsx\<close>, none in the second copy\<close>













lemma covered_cleared:
  "covered s \<Longrightarrow> message (elapse 3000 s) = None \<and> error (elapse 3000 s) = None"
  by (auto simp: covered_def elapse_eq)



subsection \<open>Time without a submission or a disposal\<close>










section \<open>The urgency classifier\<close>

text \<open>
  C1. With \<open>d\<close> the whole-day difference between the expiry date and now, \<open>badge\<close>
  gives the class of the expired tier (\<open>bg-red-600\<close>) when \<open>d < 0\<close>, of the critical
  tier (\<open>bg-red-500\<close>) when \<open>0 \<le> d \<le> 3\<close>, of the warning tier (\<open>bg-yellow-400\<close>) when
  \<open>4 \<le> d \<le> 7\<close> and of the ok tier (\<open>bg-green-500\<close>) when \<open>d > 7\<close>; so it does at
  \<open>d = -1, 0, 3, 4, 7, 8\<close>.
\<close>

theorem badge_tiers:
  "let d = diff_day (dayjs the_dlc) now
   in (d < 0 \<longrightarrow> badge dayjs now the_dlc = js ''bg-red-600 text-white'')
    \<and> (0 \<le> d \<and> d \<le> 3 \<longrightarrow> badge dayjs now the_dlc = js ''bg-red-500 text-white'')
    \<and> (4 \<le> d \<and> d \<le> 7 \<longrightarrow> badge dayjs now the_dlc = js ''bg-yellow-400 text-black'')
    \<and> (7 < d \<longrightarrow> badge dayjs now the_dlc = js ''bg-green-500 text-white'')
    \<and> (d = -1 \<longrightarrow> badge dayjs now the_dlc = js ''bg-red-600 text-white'')
    \<and> (d = 0 \<longrightarrow> badge dayjs now the_dlc = js ''bg-red-500 text-white'')
    \<and> (d = 3 \<longrightarrow> badge dayjs now the_dlc = js ''bg-red-500 text-white'')
    \<and> (d = 4 \<longrightarrow> badge dayjs now the_dlc = js ''bg-yellow-400 text-black'')
    \<and> (d = 7 \<longrightarrow> badge dayjs now the_dlc = js ''bg-yellow-400 text-black'')
    \<and> (d = 8 \<longrightarrow> badge dayjs now the_dlc = js ''bg-green-500 text-white'')"
  unfolding badge_def Let_def by auto


theorem badge_tiers_witness:
  "badge (\<lambda>d. 1704067200000) 1704153600000 (js ''2024-01-01'') = js ''bg-red-600 text-white''
 \<and> badge (\<lambda>d. 1704067200000) 1704063600000 (js ''2024-01-01'') = js ''bg-red-500 text-white''
 \<and> badge (\<lambda>d. 1704067200000) 1703808000000 (js ''2024-01-01'') = js ''bg-red-500 text-white''
 \<and> badge (\<lambda>d. 1704067200000) 1703721600000 (js ''2024-01-01'') = js ''bg-yellow-400 text-black''
 \<and> badge (\<lambda>d. 1704067200000) 1703462400000 (js ''2024-01-01'') = js ''bg-yellow-400 text-black''
 \<and> badge (\<lambda>d. 1704067200000) 1703376000000 (js ''2024-01-01'') = js ''bg-green-500 text-white''"
  using badge_tiers [of "\<lambda>d. 1704067200000" "js ''2024-01-01''" 1704153600000]
    badge_tiers [of "\<lambda>d. 1704067200000" "js ''2024-01-01''" 1704063600000]
    badge_tiers [of "\<lambda>d. 1704067200000" "js ''2024-01-01''" 1703808000000]
    badge_tiers [of "\<lambda>d. 1704067200000" "js ''2024-01-01''" 1703721600000]
    badge_tiers [of "\<lambda>d. 1704067200000" "js ''2024-01-01''" 1703462400000]
    badge_tiers [of "\<lambda>d. 1704067200000" "js ''2024-01-01''" 1703376000000]
  by (simp add: diff_day_def Let_def)

section \<open>Adding an item\<close>

text \<open>
  C2. When the name of the form is empty or made of white space only, or its \<open>dlc\<close>
  is empty, a submission sends no request, whatever the network would answer: it
  ends in its first phase with the error \<open>Nom requis\<close> (for the name, tested first) or
  \<open>DLC requise\<close>, no message, the loading flag down, and the form and the items as
  they were. So it is in both copies.
\<close>

theorem onSubmit_validation:
  assumes "(\<forall>u \<in> set (name (form s)). isWhiteSpace u) \<or> dlc (form s) = []"
  shows "fst (onSubmit_begin c s) = []
       \<and> fst (onSubmit c post refresh s) = []
       \<and> snd (onSubmit c post refresh s) = snd (onSubmit_begin c s)
       \<and> error (snd (onSubmit_begin c s)) =
           Some (if \<forall>u \<in> set (name (form s)). isWhiteSpace u
                 then js ''Nom requis'' else js ''DLC requise'')
       \<and> message (snd (onSubmit_begin c s)) = None
       \<and> items (snd (onSubmit_begin c s)) = items s
       \<and> form (snd (onSubmit_begin c s)) = form s
       \<and> loading (snd (onSubmit_begin c s)) = False"
  using assms
  by (cases c)
     (auto simp: onSubmit_def onSubmit_begin_def onSubmit_catch_def setTimeout_def
                 trim_empty_iff Let_def)

theorem onSubmit_validation_witness:
  "onSubmit App_tsx (Rejected (Error [])) (Rejected (Error []))
     (init\<lparr>form := (form init)\<lparr>name := js ''  '', dlc := js ''2024-01-01''\<rparr>\<rparr>)
   = ([], init\<lparr>form := (form init)\<lparr>name := js ''  '', dlc := js ''2024-01-01''\<rparr>,
              error := Some (js ''Nom requis''), timers := [(3000, ClearError)]\<rparr>)
 \<and> error (snd (onSubmit_begin Part_000
      (init\<lparr>form := (form init)\<lparr>name := js ''Milk''\<rparr>\<rparr>))) = Some (js ''DLC requise'')
 \<and> fst (onSubmit_begin Part_000 (init\<lparr>form := (form init)\<lparr>name := js ''Milk''\<rparr>\<rparr>)) = []"
  using onSubmit_validation [of "init\<lparr>form := (form init)\<lparr>name := js ''  '', dlc := js ''2024-01-01''\<rparr>\<rparr>"
      App_tsx "Rejected (Error [])" "Rejected (Error [])"]
    onSubmit_validation [of "init\<lparr>form := (form init)\<lparr>name := js ''Milk''\<rparr>\<rparr>" Part_000]
  by (simp add: init_def js_def isWhiteSpace_def onSubmit_begin_def onSubmit_catch_def
        setTimeout_def trim_def prod_eq_iff)

text \<open>
  C3. When the creation request is answered with a success status, in whatever state
  the answer arrives, the name and the \<open>dlc\<close> of the form become empty, its category,
  location and perishable flag stay, the items are not touched by the draft, and the
  list is requested again; when that request gives a list, the list replaces the items,
  whatever they were, and the form stays.
\<close>

theorem onSubmit_created:
  assumes "ok res"
  shows "fst (onSubmit_posted c (Fulfilled res) s) = [GET_items]
       \<and> form (snd (onSubmit_posted c (Fulfilled res) s)) = (form s)\<lparr>name := [], dlc := []\<rparr>
       \<and> name (form (snd (onSubmit_posted c (Fulfilled res) s))) = []
       \<and> dlc (form (snd (onSubmit_posted c (Fulfilled res) s))) = []
       \<and> category (form (snd (onSubmit_posted c (Fulfilled res) s))) = category (form s)
       \<and> location (form (snd (onSubmit_posted c (Fulfilled res) s))) = location (form s)
       \<and> perishable (form (snd (onSubmit_posted c (Fulfilled res) s))) = perishable (form s)
       \<and> items (snd (onSubmit_posted c (Fulfilled res) s)) = items s
       \<and> (\<forall>s2 data. then_json refresh = Fulfilled data \<longrightarrow>
            items (onSubmit_refreshed c refresh s2) = data
          \<and> form (onSubmit_refreshed c refresh s2) = form s2)"
  using assms by (cases c) (auto simp: phase_defs Let_def)

theorem onSubmit_created_witness:
  "fst (onSubmit_posted App_tsx
          (Fulfilled \<lparr>status = 201, res_text = Fulfilled [], res_json = Fulfilled ()\<rparr>)
          (init\<lparr>form := \<lparr>name = js ''Milk'', category = js ''Dairy'', perishable = True,
                         dlc = js ''2024-01-01'', location = js ''Fridge''\<rparr>\<rparr>)) = [GET_items]
 \<and> form (snd (onSubmit_posted App_tsx
          (Fulfilled \<lparr>status = 201, res_text = Fulfilled [], res_json = Fulfilled ()\<rparr>)
          (init\<lparr>form := \<lparr>name = js ''Milk'', category = js ''Dairy'', perishable = True,
                         dlc = js ''2024-01-01'', location = js ''Fridge''\<rparr>\<rparr>)))
     = \<lparr>name = [], category = js ''Dairy'', perishable = True, dlc = [],
        location = js ''Fridge''\<rparr>
 \<and> items (onSubmit_refreshed App_tsx
          (Fulfilled \<lparr>status = 200, res_text = Fulfilled [],
             res_json = Fulfilled [\<lparr>ident = 7, name = js ''Milk'', category = js ''Dairy'',
               perishable = True, dlc = js ''2024-01-01'', location = js ''Fridge'',
               created_at = js ''2023-12-20''\<rparr>]\<rparr>) init)
     = [\<lparr>ident = 7, name = js ''Milk'', category = js ''Dairy'',
               perishable = True, dlc = js ''2024-01-01'', location = js ''Fridge'',
               created_at = js ''2023-12-20''\<rparr>]"
  using onSubmit_created [of "\<lparr>status = 201, res_text = Fulfilled [], res_json = Fulfilled ()\<rparr>"
      App_tsx
      "init\<lparr>form := \<lparr>name = js ''Milk'', category = js ''Dairy'', perishable = True,
                         dlc = js ''2024-01-01'', location = js ''Fridge''\<rparr>\<rparr>"
      "Fulfilled \<lparr>status = 200, res_text = Fulfilled [],
             res_json = Fulfilled [\<lparr>ident = 7, name = js ''Milk'', category = js ''Dairy'',
               perishable = True, dlc = js ''2024-01-01'', location = js ''Fridge'',
               created_at = js ''2023-12-20''\<rparr>]\<rparr>"]
  by (simp add: ok_def then_json_def)

section \<open>Disposing of an item\<close>

text \<open>
  C4. When the disposal request for \<open>k\<close> is answered with a success status, the items
  become the items whose \<open>id\<close> is not \<open>k\<close>, in their order, at once: this phase sends
  no request, and no item with \<open>id\<close> \<open>k\<close> is left.
\<close>

theorem disposeItem_removes:
  assumes "ok res"
  shows "fst (disposeItem_settled c k outcome (Fulfilled res) s) = []
       \<and> items (snd (disposeItem_settled c k outcome (Fulfilled res) s))
           = filter (\<lambda>it. ident it \<noteq> k) (items s)
       \<and> (\<forall>it \<in> set (items (snd (disposeItem_settled c k outcome (Fulfilled res) s))).
            ident it \<noteq> k)"
  using assms by (cases c) (auto simp: phase_defs Let_def)

theorem disposeItem_removes_witness:
  "items (snd (disposeItem_settled Part_000 7 perdu
      (Fulfilled \<lparr>status = 200, res_text = Fulfilled [], res_json = Fulfilled ()\<rparr>)
      (init\<lparr>items :=
         [\<lparr>ident = 3, name = js ''Eggs'', category = js ''Dairy'', perishable = True,
           dlc = js ''2024-01-05'', location = js ''Fridge'', created_at = []\<rparr>,
          \<lparr>ident = 7, name = js ''Milk'', category = js ''Dairy'', perishable = True,
           dlc = js ''2024-01-01'', location = js ''Fridge'', created_at = []\<rparr>,
          \<lparr>ident = 9, name = js ''Rice'', category = js ''Dry'', perishable = False,
           dlc = js ''2025-01-01'', location = js ''Pantry'', created_at = []\<rparr>]\<rparr>)))
   = [\<lparr>ident = 3, name = js ''Eggs'', category = js ''Dairy'', perishable = True,
           dlc = js ''2024-01-05'', location = js ''Fridge'', created_at = []\<rparr>,
      \<lparr>ident = 9, name = js ''Rice'', category = js ''Dry'', perishable = False,
           dlc = js ''2025-01-01'', location = js ''Pantry'', created_at = []\<rparr>]"
  using disposeItem_removes [of "\<lparr>status = 200, res_text = Fulfilled [], res_json = Fulfilled ()\<rparr>"
      Part_000 7 perdu
      "init\<lparr>items :=
         [\<lparr>ident = 3, name = js ''Eggs'', category = js ''Dairy'', perishable = True,
           dlc = js ''2024-01-05'', location = js ''Fridge'', created_at = []\<rparr>,
          \<lparr>ident = 7, name = js ''Milk'', category = js ''Dairy'', perishable = True,
           dlc = js ''2024-01-01'', location = js ''Fridge'', created_at = []\<rparr>,
          \<lparr>ident = 9, name = js ''Rice'', category = js ''Dry'', perishable = False,
           dlc = js ''2025-01-01'', location = js ''Pantry'', created_at = []\<rparr>]\<rparr>"]
  by (simp add: ok_def)

text \<open>
  C5. When the disposal request fails, by a transport failure or by a status that is
  not a success, the items stay as they are, an error is set (the message of the
  failure, for a transport failure) and the message is not touched.
\<close>

theorem disposeItem_failure:
  assumes "(\<exists>e. p = Rejected e) \<or> (\<exists>res. p = Fulfilled res \<and> \<not> ok res)"
  shows "fst (disposeItem_settled c k outcome p s) = []
       \<and> items (snd (disposeItem_settled c k outcome p s)) = items s
       \<and> error (snd (disposeItem_settled c k outcome p s)) \<noteq> None
       \<and> message (snd (disposeItem_settled c k outcome p s)) = message s
       \<and> (\<forall>e. p = Rejected e \<longrightarrow>
            error (snd (disposeItem_settled c k outcome p s)) = Some (errMsg e))"
  using assms by (cases c) (auto simp: phase_defs Let_def split: settled.splits)

theorem disposeItem_failure_witness:
  "items (snd (disposeItem_settled App_tsx 7 consomme (Rejected (Error (js ''Failed to fetch'')))
      (init\<lparr>items :=
         [\<lparr>ident = 7, name = js ''Milk'', category = js ''Dairy'', perishable = True,
           dlc = js ''2024-01-01'', location = js ''Fridge'', created_at = []\<rparr>]\<rparr>)))
   = [\<lparr>ident = 7, name = js ''Milk'', category = js ''Dairy'', perishable = True,
           dlc = js ''2024-01-01'', location = js ''Fridge'', created_at = []\<rparr>]
 \<and> error (snd (disposeItem_settled App_tsx 7 consomme (Rejected (Error (js ''Failed to fetch'')))
      (init\<lparr>items :=
         [\<lparr>ident = 7, name = js ''Milk'', category = js ''Dairy'', perishable = True,
           dlc = js ''2024-01-01'', location = js ''Fridge'', created_at = []\<rparr>]\<rparr>)))
   = Some (js ''Failed to fetch'')
 \<and> items (snd (disposeItem_settled Part_000 7 perdu
      (Fulfilled \<lparr>status = 404, res_text = Fulfilled (js ''Not Found''), res_json = Fulfilled ()\<rparr>)
      (init\<lparr>items :=
         [\<lparr>ident = 7, name = js ''Milk'', category = js ''Dairy'', perishable = True,
           dlc = js ''2024-01-01'', location = js ''Fridge'', created_at = []\<rparr>]\<rparr>)))
   = [\<lparr>ident = 7, name = js ''Milk'', category = js ''Dairy'', perishable = True,
           dlc = js ''2024-01-01'', location = js ''Fridge'', created_at = []\<rparr>]"
  using disposeItem_failure [of "Rejected (Error (js ''Failed to fetch''))" App_tsx 7 consomme
      "init\<lparr>items :=
         [\<lparr>ident = 7, name = js ''Milk'', category = js ''Dairy'', perishable = True,
           dlc = js ''2024-01-01'', location = js ''Fridge'', created_at = []\<rparr>]\<rparr>"]
    disposeItem_failure [of
      "Fulfilled \<lparr>status = 404, res_text = Fulfilled (js ''Not Found''), res_json = Fulfilled ()\<rparr>"
      Part_000 7 perdu
      "init\<lparr>items :=
         [\<lparr>ident = 7, name = js ''Milk'', category = js ''Dairy'', perishable = True,
           dlc = js ''2024-01-01'', location = js ''Fridge'', created_at = []\<rparr>]\<rparr>"]
  by (simp add: ok_def)

section \<open>Error messages of the server\<close>

text \<open>
  C9. When a creation or a disposal request is answered with a status outside 200 to
  299 and the body text \<open>t\<close>, the operation fails, with none of the effects of a success,
  and the error shown is \<open>t\<close> when \<open>t\<close> is not empty and \<open>Erreur API\<close> when it is.
\<close>

theorem non_2xx_message:
  assumes "\<not> (200 \<le> status res \<and> status res \<le> 299)" and "res_text res = Fulfilled t"
  shows "fst (onSubmit_posted c (Fulfilled res) s) = []
       \<and> error (snd (onSubmit_posted c (Fulfilled res) s))
           = Some (if t = [] then js ''Erreur API'' else t)
       \<and> message (snd (onSubmit_posted c (Fulfilled res) s)) = message s
       \<and> form (snd (onSubmit_posted c (Fulfilled res) s)) = form s
       \<and> items (snd (onSubmit_posted c (Fulfilled res) s)) = items s
       \<and> fst (disposeItem_settled c k outcome (Fulfilled res) s) = []
       \<and> error (snd (disposeItem_settled c k outcome (Fulfilled res) s))
           = Some (if t = [] then js ''Erreur API'' else t)
       \<and> message (snd (disposeItem_settled c k outcome (Fulfilled res) s)) = message s
       \<and> items (snd (disposeItem_settled c k outcome (Fulfilled res) s)) = items s"
  using assms by (cases c) (auto simp: phase_defs ok_def Let_def)

theorem non_2xx_message_witness:
  "error (snd (onSubmit_posted App_tsx
      (Fulfilled \<lparr>status = 422, res_text = Fulfilled (js ''dlc invalide''), res_json = Fulfilled ()\<rparr>)
      init)) = Some (js ''dlc invalide'')
 \<and> error (snd (disposeItem_settled Part_000 7 perdu
      (Fulfilled \<lparr>status = 500, res_text = Fulfilled [], res_json = Fulfilled ()\<rparr>)
      init)) = Some (js ''Erreur API'')"
  using non_2xx_message [of
      "\<lparr>status = 422, res_text = Fulfilled (js ''dlc invalide''), res_json = Fulfilled ()\<rparr>"
      "js ''dlc invalide''" App_tsx init]
    non_2xx_message [of "\<lparr>status = 500, res_text = Fulfilled [], res_json = Fulfilled ()\<rparr>"
      "[]" Part_000 init 7 perdu]
  by (simp add: js_def)

section \<open>Loading the vocabularies\<close>

text \<open>
  C6 does not hold of the code. The tests \<open>!form.category\<close> and \<open>!form.location\<close> of
  \<open>fetchRefs\<close> read the form of the first render, which is empty, and not the form the
  updater receives; so the seeding overwrites a selection whenever there is one. When
  the effect of the mount runs twice, the answer to the first call fills the two
  lists, the user selects \<open>Produce\<close> and \<open>Pantry\<close>, and the answer to the second call
  sets the two fields back to \<open>Dairy\<close> and \<open>Fridge\<close>.
\<close>

theorem seeding_overwrites_selection:
  "run App_tsx
     [RefsSettled
        (Fulfilled \<lparr>status = 200, res_text = Fulfilled [],
           res_json = Fulfilled [js ''Dairy'', js ''Produce'']\<rparr>)
        (Fulfilled \<lparr>status = 200, res_text = Fulfilled [],
           res_json = Fulfilled [js ''Fridge'', js ''Pantry'']\<rparr>),
      ChangeCategory (js ''Produce''), ChangeLocation (js ''Pantry'')]
     init
   = Some (init\<lparr>categories := [js ''Dairy'', js ''Produce''],
                 locations := [js ''Fridge'', js ''Pantry''],
                 form := (form init)\<lparr>category := js ''Produce'', location := js ''Pantry''\<rparr>\<rparr>)
 \<and> run App_tsx
     [RefsSettled
        (Fulfilled \<lparr>status = 200, res_text = Fulfilled [],
           res_json = Fulfilled [js ''Dairy'', js ''Produce'']\<rparr>)
        (Fulfilled \<lparr>status = 200, res_text = Fulfilled [],
           res_json = Fulfilled [js ''Fridge'', js ''Pantry'']\<rparr>),
      ChangeCategory (js ''Produce''), ChangeLocation (js ''Pantry''),
      RefsSettled
        (Fulfilled \<lparr>status = 200, res_text = Fulfilled [],
           res_json = Fulfilled [js ''Dairy'', js ''Produce'']\<rparr>)
        (Fulfilled \<lparr>status = 200, res_text = Fulfilled [],
           res_json = Fulfilled [js ''Fridge'', js ''Pantry'']\<rparr>)]
     init
   = Some (init\<lparr>categories := [js ''Dairy'', js ''Produce''],
                 locations := [js ''Fridge'', js ''Pantry''],
                 form := (form init)\<lparr>category := js ''Dairy'', location := js ''Fridge''\<rparr>\<rparr>)"
  by (simp add: fetchRefs_settled_def promise_all_def then_json_def index_def init_def js_def)

text \<open>
  C10. \<open>fetchRefs\<close> never reads \<open>cats[0]\<close> or \<open>locs[0]\<close> past the end, and when the
  categories of the answer are empty the category of the form stays as it is; so
  for the locations and the location.
\<close>

theorem fetchRefs_empty_vocabulary:
  "fetchRefs_settled f0 pc pl s \<noteq> None
   \<and> (\<forall>st s'. fetchRefs_settled f0 pc pl s = Some (st, s') \<longrightarrow>
         (then_json pc = Fulfilled [] \<longrightarrow> category (form s') = category (form s))
       \<and> (then_json pl = Fulfilled [] \<longrightarrow> location (form s') = location (form s)))"
  by (auto simp: fetchRefs_settled_def promise_all_def index_def Let_def
           split: settled.splits if_splits)

theorem fetchRefs_empty_vocabulary_witness:
  "fetchRefs_settled (form init)
       (Fulfilled \<lparr>status = 200, res_text = Fulfilled (js ''[]''), res_json = Fulfilled []\<rparr>)
       (Fulfilled \<lparr>status = 200, res_text = Fulfilled [],
          res_json = Fulfilled [js ''Fridge'', js ''Pantry'']\<rparr>)
       init
     = Some (Fulfilled (),
         init\<lparr>locations := [js ''Fridge'', js ''Pantry''],
              form := (form init)\<lparr>location := js ''Fridge''\<rparr>\<rparr>)
 \<and> category (form (init\<lparr>locations := [js ''Fridge'', js ''Pantry''],
              form := (form init)\<lparr>location := js ''Fridge''\<rparr>\<rparr>)) = category (form init)"
proof -
  let ?pc = "Fulfilled \<lparr>status = 200, res_text = Fulfilled (js ''[]''),
               res_json = Fulfilled ([] :: jsstring list)\<rparr>"
  let ?pl = "Fulfilled \<lparr>status = 200, res_text = Fulfilled [],
               res_json = Fulfilled [js ''Fridge'', js ''Pantry'']\<rparr>"
  let ?s' = "init\<lparr>locations := [js ''Fridge'', js ''Pantry''],
               form := (form init)\<lparr>location := js ''Fridge''\<rparr>\<rparr>"
  have settled: "fetchRefs_settled (form init) ?pc ?pl init = Some (Fulfilled (), ?s')"
    by (simp add: fetchRefs_settled_def promise_all_def then_json_def index_def init_def)
  have empty: "then_json ?pc = Fulfilled []"
    by (simp add: then_json_def)
  from fetchRefs_empty_vocabulary [of "form init" ?pc ?pl init] settled empty
  have "category (form ?s') = category (form init)"
    by blast
  with settled show ?thesis by simp
qed

text \<open>
  C7, as the code has it. \<open>fetchRefs\<close> sends both requests before it awaits either.
  It fails when one of the two promises \<open>fetch(...).then(r => r.json())\<close> rejects, by a
  transport failure or by a body that is not JSON, and then the state is untouched;
  when both are fulfilled, both vocabularies are applied.
\<close>

theorem fetchRefs_all_or_nothing:
  "fst (fetchRefs_begin s) = [GET_categories, GET_locations]
   \<and> ((\<exists>e. then_json pc = Rejected e) \<or> (\<exists>e. then_json pl = Rejected e) \<longrightarrow>
        (\<exists>e. fetchRefs_settled f0 pc pl s = Some (Rejected e, s)))
   \<and> (\<forall>cats locs. then_json pc = Fulfilled cats \<and> then_json pl = Fulfilled locs \<longrightarrow>
        (\<exists>s'. fetchRefs_settled f0 pc pl s = Some (Fulfilled (), s')
            \<and> categories s' = cats \<and> locations s' = locs))"
  by (auto simp: fetchRefs_begin_def fetchRefs_settled_def promise_all_def index_def Let_def
           split: settled.splits if_splits)

theorem fetchRefs_all_or_nothing_witness:
  "fetchRefs_settled (form init)
       (Rejected (Error (js ''Failed to fetch'')))
       (Fulfilled \<lparr>status = 200, res_text = Fulfilled [],
          res_json = Fulfilled [js ''Fridge'', js ''Pantry'']\<rparr>)
       init
     = Some (Rejected (Error (js ''Failed to fetch'')), init)
 \<and> fetchRefs_settled (form init)
       (Fulfilled \<lparr>status = 200, res_text = Fulfilled [],
          res_json = Fulfilled [js ''Dairy'', js ''Produce'']\<rparr>)
       (Fulfilled \<lparr>status = 502, res_text = Fulfilled (js ''Bad Gateway''),
          res_json = Rejected (Error (js ''Unexpected token B in JSON at position 0''))\<rparr>)
       init
     = Some (Rejected (Error (js ''Unexpected token B in JSON at position 0'')), init)"
proof -
  let ?a = "Rejected (Error (js ''Failed to fetch'')) :: jsstring list response settled"
  let ?b = "Fulfilled \<lparr>status = 200, res_text = Fulfilled [],
          res_json = Fulfilled [js ''Fridge'', js ''Pantry'']\<rparr>"
  let ?c = "Fulfilled \<lparr>status = 200, res_text = Fulfilled [],
          res_json = Fulfilled [js ''Dairy'', js ''Produce'']\<rparr>"
  let ?d = "Fulfilled \<lparr>status = 502, res_text = Fulfilled (js ''Bad Gateway''),
          res_json = Rejected (Error (js ''Unexpected token B in JSON at position 0''))
            :: jsstring list settled\<rparr>"
  have "\<exists>e. then_json ?a = Rejected e" "\<exists>e. then_json ?d = Rejected e"
    by (simp_all add: then_json_def)
  with fetchRefs_all_or_nothing [of init ?a ?b "form init"]
    fetchRefs_all_or_nothing [of init ?c ?d "form init"]
  have "\<exists>e. fetchRefs_settled (form init) ?a ?b init = Some (Rejected e, init)"
    "\<exists>e. fetchRefs_settled (form init) ?c ?d init = Some (Rejected e, init)"
    by blast+
  then show ?thesis
    by (auto simp: fetchRefs_settled_def promise_all_def then_json_def)
qed

text \<open>
  C7 as stated fails for a request that fails by its status: \<open>fetchRefs\<close> does not look
  at the status. With the categories answered 500 with the body \<open>[]\<close> and the locations
  answered 200, \<open>fetchRefs\<close> is fulfilled and the locations are applied.
\<close>

theorem fetchRefs_http_error_counterexample:
  "ok \<lparr>status = 500, res_text = Fulfilled (js ''[]''),
        res_json = Fulfilled ([] :: jsstring list)\<rparr> = False
 \<and> fetchRefs_settled (form init)
       (Fulfilled \<lparr>status = 500, res_text = Fulfilled (js ''[]''), res_json = Fulfilled []\<rparr>)
       (Fulfilled \<lparr>status = 200, res_text = Fulfilled [],
          res_json = Fulfilled [js ''Fridge'', js ''Pantry'']\<rparr>)
       init
     = Some (Fulfilled (),
         init\<lparr>locations := [js ''Fridge'', js ''Pantry''],
              form := (form init)\<lparr>location := js ''Fridge''\<rparr>\<rparr>)"
  by (simp add: ok_def fetchRefs_settled_def promise_all_def then_json_def index_def init_def)

section \<open>The feedback message\<close>




end
